theory Spec2Isabelle
  imports Main
begin

section \<open>JavaScript values\<close>

text \<open>
  The values the adapter handles: build ids, tokens, the answers of the Jenkins client
  and the reasons promises are rejected with. \<open>JNum n\<close> is the JavaScript number whose
  value is the integer \<open>n\<close> (faithful for integers below \<open>10^21\<close> in absolute value,
  which JavaScript prints in plain decimal); fractions, \<open>NaN\<close> and infinities are not
  modelled. \<open>JObj\<close> is a plain object, its own properties in insertion order and with
  distinct keys. \<open>JError m\<close> is \<open>new Error(m)\<close>; \<open>JTypeError m\<close> is the \<open>TypeError\<close>
  the engine throws when a property of \<open>undefined\<close> or \<open>null\<close> is read.
\<close>

datatype jsval =
    JUndefined
  | JNull
  | JBool bool
  | JNum int
  | JStr string
  | JObj "(string \<times> jsval) list"
  | JError string
  | JTypeError string

text \<open>ToBoolean, as \<open>if (v)\<close>, \<open>!v\<close> and \<open>v && w\<close> apply it.\<close>

fun truthy :: "jsval \<Rightarrow> bool" where
  "truthy JUndefined = False"
| "truthy JNull = False"
| "truthy (JBool b) = b"
| "truthy (JNum n) = (n \<noteq> 0)"
| "truthy (JStr s) = (s \<noteq> [])"
| "truthy (JObj kvs) = True"
| "truthy (JError m) = True"
| "truthy (JTypeError m) = True"

text \<open>Decimal digits of a natural number, most significant first.\<close>

fun digits :: "nat \<Rightarrow> string" where
  "digits n =
     (if n < 10 then [''0123456789'' ! n]
      else digits (n div 10) @ [''0123456789'' ! (n mod 10)])"

declare digits.simps [simp del]

text \<open>
  ToString, which both the template literal \<open>`SD-${buildId}`\<close> and the call
  \<open>String(config.buildId)\<close> apply to their argument.
\<close>

fun ToString :: "jsval \<Rightarrow> string" where
  "ToString JUndefined = ''undefined''"
| "ToString JNull = ''null''"
| "ToString (JBool b) = (if b then ''true'' else ''false'')"
| "ToString (JNum n) = (if n < 0 then ''-'' @ digits (nat (- n)) else digits (nat n))"
| "ToString (JStr s) = s"
| "ToString (JObj kvs) = ''[object Object]''"
| "ToString (JError m) = (if m = [] then ''Error'' else ''Error: '' @ m)"
| "ToString (JTypeError m) = (if m = [] then ''TypeError'' else ''TypeError: '' @ m)"

text \<open>
  The property read \<open>v.k\<close>, for a key that no primitive and no error object carries
  (the source reads \<open>lastBuild\<close> and \<open>number\<close> only): a missing property is
  \<open>undefined\<close>, and reading any property of \<open>undefined\<close> or \<open>null\<close> throws
  (\<open>Inl\<close>; the message is V8's).
\<close>

fun getProp :: "jsval \<Rightarrow> string \<Rightarrow> jsval + jsval" where
  "getProp JUndefined k =
     Inl (JTypeError (''Cannot read properties of undefined (reading '' @ [CHR 0x27] @ k @ [CHR 0x27] @ '')''))"
| "getProp JNull k =
     Inl (JTypeError (''Cannot read properties of null (reading '' @ [CHR 0x27] @ k @ [CHR 0x27] @ '')''))"
| "getProp (JObj kvs) k = Inr (case map_of kvs k of None \<Rightarrow> JUndefined | Some v \<Rightarrow> v)"
| "getProp v k = Inr JUndefined"

text \<open>\<open>a && b\<close>: \<open>b\<close> is evaluated, and is the value, only when \<open>a\<close> is truthy.\<close>

definition and_js :: "jsval + jsval \<Rightarrow> jsval + jsval \<Rightarrow> jsval + jsval" where
  "and_js a b = (case a of Inl e \<Rightarrow> Inl e | Inr v \<Rightarrow> if truthy v then b else Inr v)"

section \<open>Remote operation descriptors, the breaker and promises\<close>

record descriptor =
  module :: string
  action :: string
  params :: "jsval list"

text \<open>
  \<open>breaker.runCommand\<close> is the adapter's only door to the Jenkins server. The breaker,
  the client library and the server behind it are one state machine of an arbitrary
  state \<open>'w\<close>: given a descriptor it settles the promise, \<open>Inr v\<close> for resolved with
  \<open>v\<close> and \<open>Inl e\<close> for rejected with \<open>e\<close>, and moves to a new state. The world
  also keeps \<open>calls\<close>, the descriptors handed to \<open>runCommand\<close> so far, oldest first,
  as the stub of the test suite records them.
\<close>

type_synonym 'w breaker = "descriptor \<Rightarrow> 'w \<Rightarrow> (jsval + jsval) \<times> 'w"

record 'w world =
  calls :: "descriptor list"
  remote :: 'w

type_synonym ('w, 'a) promise = "'w world \<Rightarrow> (jsval + 'a) \<times> 'w world"

definition resolve :: "'a \<Rightarrow> ('w, 'a) promise" where
  "resolve v s = (Inr v, s)"

definition reject :: "jsval \<Rightarrow> ('w, 'a) promise" where
  "reject e s = (Inl e, s)"

text \<open>
  \<open>p.then(f)\<close> with one callback: \<open>f\<close> runs once \<open>p\<close> has resolved, on the state
  \<open>p\<close> left; a rejection of \<open>p\<close> passes through and \<open>f\<close> never runs.
\<close>

definition then_promise :: "('w, 'a) promise \<Rightarrow> ('a \<Rightarrow> ('w, 'b) promise) \<Rightarrow> ('w, 'b) promise" where
  "then_promise p f s = (case p s of (Inl e, s') \<Rightarrow> (Inl e, s') | (Inr v, s') \<Rightarrow> f v s')"

definition runCommand :: "'w breaker \<Rightarrow> descriptor \<Rightarrow> ('w, jsval) promise" where
  "runCommand br d s =
     (case br d (remote s) of (r, w') \<Rightarrow> (r, \<lparr>calls = calls s @ [d], remote = w'\<rparr>))"

section \<open>The adapter\<close>

record ecosystem =
  api :: jsval
  store :: jsval

record 'w executor =
  ecosystem :: ecosystem
  breaker :: "'w breaker"

record config =
  buildId :: jsval
  container :: jsval
  token :: jsval

text \<open>
  The module's surroundings: \<open>fs.readFile(path, 'utf-8', cb)\<close> as the function from
  a path to the error or the contents, and \<open>__dirname\<close>.
\<close>

record files =
  readFile :: "string \<Rightarrow> jsval + string"
  dirname :: string

text \<open>\<open>path.resolve(__dirname, rel)\<close> for a relative path \<open>./x/y\<close> without dot segments further in.\<close>

definition path_resolve :: "string \<Rightarrow> string \<Rightarrow> string" where
  "path_resolve dir rel = dir @ ''/'' @ drop 2 rel"

text \<open>\<open>_jobName\<close>, the same in both files.\<close>

definition jobName :: "jsval \<Rightarrow> string" where
  "jobName b = ''SD-'' @ ToString b"

text \<open>\<open>_jenkinsJobCreateOrUpdate\<close>, the same in both files.\<close>

definition jenkinsJobCreateOrUpdate :: "'w executor \<Rightarrow> string \<Rightarrow> string \<Rightarrow> ('w, jsval) promise" where
  "jenkinsJobCreateOrUpdate this name xml =
     then_promise
       (then_promise (resolve JUndefined)
          (\<lambda>_. runCommand (breaker this)
             \<lparr>module = ''job'', action = ''exists'', params = [JObj [(''name'', JStr name)]]\<rparr>))
       (\<lambda>exists.
          if truthy exists then
            runCommand (breaker this)
              \<lparr>module = ''job'', action = ''config'',
               params = [JObj [(''name'', JStr name), (''xml'', JStr xml)]]\<rparr>
          else
            runCommand (breaker this)
              \<lparr>module = ''job'', action = ''create'',
               params = [JObj [(''name'', JStr name), (''xml'', JStr xml)]]\<rparr>)"

subsection \<open>src/index.js\<close>

definition start_index :: "'w executor \<Rightarrow> files \<Rightarrow> config \<Rightarrow> ('w, jsval) promise" where
  "start_index this fs config =
     (let name = jobName (buildId config) in
      then_promise
        (then_promise
           (\<lambda>s. (readFile fs (path_resolve (dirname fs) ''./config/test-job.xml''), s))
           (\<lambda>xml. jenkinsJobCreateOrUpdate this name xml))
        (\<lambda>_. let parameters = JObj
                 [(''SD_BUILDID'', JStr (ToString (buildId config))),
                  (''SD_TOKEN'', token config),
                  (''SD_API'', api (ecosystem this)),
                  (''SD_STORE'', store (ecosystem this))]
              in runCommand (breaker this)
                   \<lparr>module = ''job'', action = ''build'',
                    params = [JObj [(''name'', JStr name), (''parameters'', parameters)]]\<rparr>))"

text \<open>
  The guard of \<open>_stop\<close>, \<open>data && data.lastBuild && data.lastBuild.number\<close>, and the
  read \<open>data.lastBuild.number\<close>.
\<close>

definition lastBuild_number :: "jsval \<Rightarrow> jsval + jsval" where
  "lastBuild_number data =
     (case getProp data ''lastBuild'' of Inl e \<Rightarrow> Inl e | Inr lb \<Rightarrow> getProp lb ''number'')"

definition stop_guard :: "jsval \<Rightarrow> jsval + jsval" where
  "stop_guard data =
     and_js (and_js (Inr data) (getProp data ''lastBuild'')) (lastBuild_number data)"

definition stop_index :: "'w executor \<Rightarrow> config \<Rightarrow> ('w, jsval) promise" where
  "stop_index this config =
     (let name = jobName (buildId config) in
      then_promise
        (then_promise
           (runCommand (breaker this)
              \<lparr>module = ''job'', action = ''get'', params = [JStr name]\<rparr>)
           (\<lambda>data.
              case stop_guard data of
                Inl e \<Rightarrow> reject e
              | Inr g \<Rightarrow>
                  if \<not> truthy g then reject (JError ''No build has been started yet, try later'')
                  else
                    (case lastBuild_number data of
                       Inl e \<Rightarrow> reject e
                     | Inr n \<Rightarrow>
                         runCommand (breaker this)
                           \<lparr>module = ''build'', action = ''stop'',
                            params = [JObj [(''name'', JStr name), (''number'', n)]]\<rparr>)))
        (\<lambda>_. resolve (JNum 10)))"

subsection \<open>src/unnamed/part_000\<close>

definition start_part000 :: "'w executor \<Rightarrow> files \<Rightarrow> config \<Rightarrow> ('w, jsval) promise" where
  "start_part000 this fs config =
     (let name = jobName (buildId config) in
      then_promise
        (then_promise
           (\<lambda>s. (readFile fs (path_resolve (dirname fs) ''./config/job.xml''), s))
           (\<lambda>xml. jenkinsJobCreateOrUpdate this name xml))
        (\<lambda>_. let parameters = JObj
                 [(''SD_BUILDID'', JStr (ToString (buildId config))),
                  (''SD_TOKEN'', token config),
                  (''SD_CONTAINER'', container config),
                  (''SD_API'', api (ecosystem this)),
                  (''SD_STORE'', store (ecosystem this))]
              in runCommand (breaker this)
                   \<lparr>module = ''job'', action = ''build'',
                    params = [JObj [(''name'', JStr name), (''parameters'', parameters)]]\<rparr>))"

definition stop_part000 :: "'w executor \<Rightarrow> config \<Rightarrow> ('w, jsval) promise" where
  "stop_part000 this config =
     (let name = jobName (buildId config) in
      then_promise
        (then_promise
           (runCommand (breaker this)
              \<lparr>module = ''job'', action = ''get'', params = [JObj [(''name'', JStr name)]]\<rparr>)
           (\<lambda>data.
              case stop_guard data of
                Inl e \<Rightarrow> reject e
              | Inr g \<Rightarrow>
                  if \<not> truthy g then reject (JError ''No build has been started yet, try later'')
                  else
                    (case lastBuild_number data of
                       Inl e \<Rightarrow> reject e
                     | Inr n \<Rightarrow>
                         runCommand (breaker this)
                           \<lparr>module = ''build'', action = ''stop'',
                            params = [JObj [(''name'', JStr name), (''number'', n)]]\<rparr>)))
        (\<lambda>_. runCommand (breaker this)
               \<lparr>module = ''job'', action = ''destroy'', params = [JObj [(''name'', JStr name)]]\<rparr>))"

section \<open>Observing the calls\<close>

text \<open>
  The job a descriptor is about: its only parameter when that is a string (as
  \<open>_stop\<close> of src/index.js passes it to \<open>job.get\<close>), and otherwise the \<open>name\<close>
  property of its only parameter.
\<close>

fun job_of :: "descriptor \<Rightarrow> jsval" where
  "job_of d =
     (case params d of
        [JStr n] \<Rightarrow> JStr n
      | [JObj kvs] \<Rightarrow> (case map_of kvs ''name'' of None \<Rightarrow> JUndefined | Some v \<Rightarrow> v)
      | _ \<Rightarrow> JUndefined)"

section \<open>The fixtures of src/test/index.test.js\<close>

text \<open>
  A stubbed breaker in the manner of the test suite
  (\<open>breakerMock.runCommand.withArgs(opts).resolves(v)\<close> or \<open>.rejects(e)\<close>), keyed here
  by the action of the descriptor: it settles a call with the answer listed for its
  action, and resolves with \<open>null\<close> when none is listed. Its state is the number of
  commands it has run. The other fixtures are the test suite's \<open>config\<close>,
  \<open>buildIdConfig\<close>, \<open>ecosystem\<close>, \<open>fakeJobInfo\<close> and \<open>noBuildJobInfo\<close>.
\<close>

definition stub :: "(string \<times> (jsval + jsval)) list \<Rightarrow> nat breaker" where
  "stub answers d n =
     (case map_of answers (action d) of None \<Rightarrow> (Inr JNull, Suc n) | Some r \<Rightarrow> (r, Suc n))"

definition test_config :: config where
  "test_config = \<lparr>buildId = JNum 1993, container = JStr ''node:4'', token = JStr ''abcdefg''\<rparr>"

definition buildIdConfig :: config where
  "buildIdConfig = \<lparr>buildId = JNum 1993, container = JUndefined, token = JUndefined\<rparr>"

definition test_executor :: "(string \<times> (jsval + jsval)) list \<Rightarrow> nat executor" where
  "test_executor answers =
     \<lparr>ecosystem = \<lparr>api = JStr ''api'', store = JStr ''store''\<rparr>, breaker = stub answers\<rparr>"

definition test_files :: "jsval + string \<Rightarrow> files" where
  "test_files r = \<lparr>readFile = (\<lambda>p. r), dirname = ''/app''\<rparr>"

definition fakeJobInfo :: jsval where
  "fakeJobInfo = JObj [(''lastBuild'', JObj [(''number'', JNum 1)])]"

definition noBuildJobInfo :: jsval where
  "noBuildJobInfo = JObj [(''lastBuild'', JNull)]"

definition fresh :: "nat world" where
  "fresh = \<lparr>calls = [], remote = 0\<rparr>"

section \<open>Running promises step by step\<close>

lemma runCommand_eq:
  "br d (remote s) = (r, w') \<Longrightarrow> runCommand br d s = (r, \<lparr>calls = calls s @ [d], remote = w'\<rparr>)"
  by (simp add: runCommand_def)

lemma then_promise_rejected: "p s = (Inl e, s') \<Longrightarrow> then_promise p f s = (Inl e, s')"
  by (simp add: then_promise_def)

lemma then_promise_resolved: "p s = (Inr v, s') \<Longrightarrow> then_promise p f s = f v s'"
  by (simp add: then_promise_def)

lemmas run_simps = then_promise_def runCommand_def resolve_def reject_def Let_def

lemma digits_1993: "digits 1993 = ''1993''"
  by code_simp

lemma jobName_1993: "jobName (JNum 1993) = ''SD-1993''"
  by (simp add: jobName_def digits_1993)

subsection \<open>The guard of \<open>_stop\<close>\<close>

text \<open>A truthy value has properties to read: the guard never throws.\<close>

lemma getProp_truthy: "truthy v \<Longrightarrow> \<exists>x. getProp v k = Inr x"
  by (cases v) auto

lemma stop_guard_falsy_data: "\<not> truthy data \<Longrightarrow> stop_guard data = Inr data"
  by (simp add: stop_guard_def and_js_def)

lemma stop_guard_falsy_lastBuild:
  "truthy data \<Longrightarrow> getProp data ''lastBuild'' = Inr lb \<Longrightarrow> \<not> truthy lb \<Longrightarrow>
   stop_guard data = Inr lb"
  by (simp add: stop_guard_def and_js_def)

lemma stop_guard_number:
  "truthy data \<Longrightarrow> getProp data ''lastBuild'' = Inr lb \<Longrightarrow> truthy lb \<Longrightarrow>
   getProp lb ''number'' = Inr n \<Longrightarrow> stop_guard data = Inr n \<and> lastBuild_number data = Inr n"
  by (simp add: stop_guard_def and_js_def lastBuild_number_def)

lemma stop_guard_cases:
  obtains
    (no_data) "\<not> truthy data" "stop_guard data = Inr data"
  | (no_lastBuild) lb where "truthy data" "getProp data ''lastBuild'' = Inr lb" "\<not> truthy lb"
      "stop_guard data = Inr lb"
  | (number) lb n where "truthy data" "getProp data ''lastBuild'' = Inr lb" "truthy lb"
      "getProp lb ''number'' = Inr n" "stop_guard data = Inr n" "lastBuild_number data = Inr n"
proof (cases "truthy data")
  case False
  then show ?thesis using no_data stop_guard_falsy_data by blast
next
  case data: True
  then obtain lb where lb: "getProp data ''lastBuild'' = Inr lb"
    using getProp_truthy by blast
  show ?thesis
  proof (cases "truthy lb")
    case False
    then show ?thesis using no_lastBuild data lb stop_guard_falsy_lastBuild by blast
  next
    case True
    then obtain n where n: "getProp lb ''number'' = Inr n"
      using getProp_truthy by blast
    then show ?thesis using number data lb True stop_guard_number by blast
  qed
qed

section \<open>Stopping a build\<close>

text \<open>
  C1. With \<open>job.get\<close> resolving with \<open>{lastBuild: {number: 1}}\<close> and every later call
  resolving with \<open>null\<close>, as in the test "return null when the build is successfully
  stopped", \<open>_stop\<close> of src/unnamed/part_000 issues \<open>job.get\<close>, \<open>build.stop\<close> with
  number 1 and \<open>job.destroy\<close> and resolves with \<open>null\<close>, while \<open>_stop\<close> of
  src/index.js issues \<open>job.get\<close> (the job name as a bare string) and \<open>build.stop\<close>
  only, never \<open>job.destroy\<close>, and resolves with the number 10.
\<close>

theorem stop_index_omits_destroy:
  "stop_index (test_executor [(''get'', Inr fakeJobInfo), (''stop'', Inr JNull), (''destroy'', Inr JNull)])
       buildIdConfig fresh =
     (Inr (JNum 10),
      \<lparr>calls = [\<lparr>module = ''job'', action = ''get'', params = [JStr ''SD-1993'']\<rparr>,
                \<lparr>module = ''build'', action = ''stop'',
                 params = [JObj [(''name'', JStr ''SD-1993''), (''number'', JNum 1)]]\<rparr>],
       remote = 2\<rparr>)
   \<and> stop_part000 (test_executor [(''get'', Inr fakeJobInfo), (''stop'', Inr JNull), (''destroy'', Inr JNull)])
       buildIdConfig fresh =
     (Inr JNull,
      \<lparr>calls = [\<lparr>module = ''job'', action = ''get'', params = [JObj [(''name'', JStr ''SD-1993'')]]\<rparr>,
                \<lparr>module = ''build'', action = ''stop'',
                 params = [JObj [(''name'', JStr ''SD-1993''), (''number'', JNum 1)]]\<rparr>,
                \<lparr>module = ''job'', action = ''destroy'', params = [JObj [(''name'', JStr ''SD-1993'')]]\<rparr>],
       remote = 3\<rparr>)"
  by (simp add: stop_index_def stop_part000_def run_simps jobName_1993 buildIdConfig_def
      test_executor_def stub_def fresh_def fakeJobInfo_def stop_guard_def and_js_def
      lastBuild_number_def)

text \<open>
  In general: when \<open>job.get\<close> resolves with a state whose \<open>lastBuild.number\<close> is truthy
  and \<open>build.stop\<close> resolves, \<open>_stop\<close> of src/unnamed/part_000 issues \<open>job.get\<close>,
  \<open>build.stop\<close> with that number and \<open>job.destroy\<close>, in this order and nothing else,
  and settles as \<open>job.destroy\<close> does.
\<close>

theorem stop_part000_get_stop_destroy:
  fixes this :: "'w executor" and config :: config
  defines "name \<equiv> jobName (buildId config)"
  defines "get \<equiv> \<lparr>module = ''job'', action = ''get'', params = [JObj [(''name'', JStr name)]]\<rparr>"
    and "stop \<equiv> \<lambda>n. \<lparr>module = ''build'', action = ''stop'',
                        params = [JObj [(''name'', JStr name), (''number'', n)]]\<rparr>"
    and "destroy \<equiv> \<lparr>module = ''job'', action = ''destroy'', params = [JObj [(''name'', JStr name)]]\<rparr>"
  assumes "breaker this get (remote s) = (Inr data, w1)"
    and "truthy data" and "getProp data ''lastBuild'' = Inr lb" and "truthy lb"
    and "getProp lb ''number'' = Inr n" and "truthy n"
    and "breaker this (stop n) w1 = (Inr v, w2)"
    and "breaker this destroy w2 = (r, w3)"
  shows "stop_part000 this config s = (r, \<lparr>calls = calls s @ [get, stop n, destroy], remote = w3\<rparr>)"
  using assms(5-) stop_guard_number [of data lb n]
  unfolding name_def get_def stop_def destroy_def
  by (simp add: stop_part000_def run_simps)

theorem stop_part000_get_stop_destroy_witness:
  "stop_part000 (test_executor [(''get'', Inr fakeJobInfo), (''stop'', Inr JNull), (''destroy'', Inr JNull)])
       test_config fresh =
     (Inr JNull,
      \<lparr>calls = [\<lparr>module = ''job'', action = ''get'', params = [JObj [(''name'', JStr ''SD-1993'')]]\<rparr>,
                \<lparr>module = ''build'', action = ''stop'',
                 params = [JObj [(''name'', JStr ''SD-1993''), (''number'', JNum 1)]]\<rparr>,
                \<lparr>module = ''job'', action = ''destroy'', params = [JObj [(''name'', JStr ''SD-1993'')]]\<rparr>],
       remote = 3\<rparr>)"
  using stop_part000_get_stop_destroy [where
      this = "test_executor [(''get'', Inr fakeJobInfo), (''stop'', Inr JNull), (''destroy'', Inr JNull)]"
      and config = test_config and s = fresh and data = fakeJobInfo and ?w1.0 = 1
      and lb = "JObj [(''number'', JNum 1)]" and n = "JNum 1" and v = JNull and ?w2.0 = 2
      and r = "Inr JNull" and ?w3.0 = 3]
  by (simp add: jobName_1993 test_config_def test_executor_def stub_def fresh_def fakeJobInfo_def)

text \<open>
  C3. When \<open>job.get\<close> resolves with a state that has no last-build record (the state
  itself is \<open>undefined\<close> or \<open>null\<close>, or its \<open>lastBuild\<close> is absent or \<open>null\<close>),
  \<open>_stop\<close> of either file is rejected with the error whose message is
  "No build has been started yet, try later", and \<open>job.get\<close> is the only remote call it
  has issued: neither \<open>build.stop\<close> nor \<open>job.destroy\<close> follows.
\<close>

theorem stop_without_last_build:
  fixes this :: "'w executor" and config :: config
  defines "name \<equiv> jobName (buildId config)"
  defines "get_index \<equiv> \<lparr>module = ''job'', action = ''get'', params = [JStr name]\<rparr>"
    and "get_part000 \<equiv> \<lparr>module = ''job'', action = ''get'', params = [JObj [(''name'', JStr name)]]\<rparr>"
  assumes nolb: "data = JUndefined \<or> data = JNull \<or> getProp data ''lastBuild'' = Inr JUndefined
      \<or> getProp data ''lastBuild'' = Inr JNull"
  shows "(breaker this get_index (remote s) = (Inr data, w1) \<longrightarrow>
            stop_index this config s =
              (Inl (JError ''No build has been started yet, try later''),
               \<lparr>calls = calls s @ [get_index], remote = w1\<rparr>))
       \<and> (breaker this get_part000 (remote s) = (Inr data, w1) \<longrightarrow>
            stop_part000 this config s =
              (Inl (JError ''No build has been started yet, try later''),
               \<lparr>calls = calls s @ [get_part000], remote = w1\<rparr>))"
proof -
  have "\<exists>g. stop_guard data = Inr g \<and> \<not> truthy g"
  proof (cases data rule: stop_guard_cases)
    case no_data
    then show ?thesis by auto
  next
    case (no_lastBuild lb)
    then show ?thesis by auto
  next
    case (number lb n)
    then show ?thesis using nolb by auto
  qed
  then obtain g where g: "stop_guard data = Inr g" "\<not> truthy g" by blast
  show ?thesis
    unfolding name_def get_index_def get_part000_def
    by (simp add: stop_index_def stop_part000_def run_simps g)
qed

theorem stop_without_last_build_witness:
  "getProp noBuildJobInfo ''lastBuild'' = Inr JNull
   \<and> stop_index (test_executor [(''get'', Inr noBuildJobInfo), (''stop'', Inr JNull)]) buildIdConfig fresh =
     (Inl (JError ''No build has been started yet, try later''),
      \<lparr>calls = [\<lparr>module = ''job'', action = ''get'', params = [JStr ''SD-1993'']\<rparr>], remote = 1\<rparr>)
   \<and> stop_part000 (test_executor [(''get'', Inr noBuildJobInfo), (''stop'', Inr JNull)]) buildIdConfig fresh =
     (Inl (JError ''No build has been started yet, try later''),
      \<lparr>calls = [\<lparr>module = ''job'', action = ''get'', params = [JObj [(''name'', JStr ''SD-1993'')]]\<rparr>],
       remote = 1\<rparr>)"
proof -
  have nolb: "noBuildJobInfo = JUndefined \<or> noBuildJobInfo = JNull
      \<or> getProp noBuildJobInfo ''lastBuild'' = Inr JUndefined
      \<or> getProp noBuildJobInfo ''lastBuild'' = Inr JNull"
    by (simp add: noBuildJobInfo_def)
  show ?thesis
    using stop_without_last_build [OF nolb, where
        this = "test_executor [(''get'', Inr noBuildJobInfo), (''stop'', Inr JNull)]"
        and config = buildIdConfig and s = fresh and ?w1.0 = 1]
    by (simp add: jobName_1993 buildIdConfig_def test_executor_def stub_def fresh_def noBuildJobInfo_def)
qed

text \<open>
  C10. When \<open>job.get\<close> resolves with a state whose \<open>lastBuild.number\<close> can be read and
  is falsy (\<open>0\<close>, the empty string, \<open>false\<close>, \<open>null\<close> or \<open>undefined\<close>), \<open>_stop\<close> of
  either file behaves as for an absent last-build record: it is rejected with the error
  "No build has been started yet, try later" after \<open>job.get\<close> alone, with neither
  \<open>build.stop\<close> nor \<open>job.destroy\<close> issued.
\<close>

theorem stop_falsy_build_number:
  fixes this :: "'w executor" and config :: config
  defines "name \<equiv> jobName (buildId config)"
  defines "get_index \<equiv> \<lparr>module = ''job'', action = ''get'', params = [JStr name]\<rparr>"
    and "get_part000 \<equiv> \<lparr>module = ''job'', action = ''get'', params = [JObj [(''name'', JStr name)]]\<rparr>"
  assumes num: "lastBuild_number data = Inr n" and falsy: "\<not> truthy n"
  shows "(breaker this get_index (remote s) = (Inr data, w1) \<longrightarrow>
            stop_index this config s =
              (Inl (JError ''No build has been started yet, try later''),
               \<lparr>calls = calls s @ [get_index], remote = w1\<rparr>))
       \<and> (breaker this get_part000 (remote s) = (Inr data, w1) \<longrightarrow>
            stop_part000 this config s =
              (Inl (JError ''No build has been started yet, try later''),
               \<lparr>calls = calls s @ [get_part000], remote = w1\<rparr>))"
proof -
  have "\<exists>g. stop_guard data = Inr g \<and> \<not> truthy g"
  proof (cases data rule: stop_guard_cases)
    case no_data
    then show ?thesis by auto
  next
    case (no_lastBuild lb)
    then show ?thesis by auto
  next
    case (number lb m)
    then show ?thesis using num falsy by auto
  qed
  then obtain g where g: "stop_guard data = Inr g" "\<not> truthy g" by blast
  show ?thesis
    unfolding name_def get_index_def get_part000_def
    by (simp add: stop_index_def stop_part000_def run_simps g)
qed

theorem stop_falsy_build_number_witness:
  "lastBuild_number (JObj [(''lastBuild'', JObj [(''number'', JNum 0)])]) = Inr (JNum 0)
   \<and> \<not> truthy (JNum 0)
   \<and> stop_index (test_executor [(''get'', Inr (JObj [(''lastBuild'', JObj [(''number'', JNum 0)])]))])
        buildIdConfig fresh =
     (Inl (JError ''No build has been started yet, try later''),
      \<lparr>calls = [\<lparr>module = ''job'', action = ''get'', params = [JStr ''SD-1993'']\<rparr>], remote = 1\<rparr>)
   \<and> stop_part000 (test_executor [(''get'', Inr (JObj [(''lastBuild'', JObj [(''number'', JNum 0)])]))])
        buildIdConfig fresh =
     (Inl (JError ''No build has been started yet, try later''),
      \<lparr>calls = [\<lparr>module = ''job'', action = ''get'', params = [JObj [(''name'', JStr ''SD-1993'')]]\<rparr>],
       remote = 1\<rparr>)"
proof -
  have num: "lastBuild_number (JObj [(''lastBuild'', JObj [(''number'', JNum 0)])]) = Inr (JNum 0)"
    by (simp add: lastBuild_number_def)
  have falsy: "\<not> truthy (JNum 0)" by simp
  show ?thesis
    using stop_falsy_build_number [OF num falsy, where
        this = "test_executor [(''get'', Inr (JObj [(''lastBuild'', JObj [(''number'', JNum 0)])]))]"
        and config = buildIdConfig and s = fresh and ?w1.0 = 1]
    by (simp add: num jobName_1993 buildIdConfig_def test_executor_def stub_def fresh_def)
qed

text \<open>
  C8. Errors of \<open>_stop\<close>, in either file. When \<open>job.get\<close> is rejected, \<open>_stop\<close> is
  rejected with that same error and \<open>job.get\<close> is the only call issued. When \<open>job.get\<close>
  resolves with a state whose \<open>lastBuild.number\<close> is truthy and \<open>build.stop\<close> is
  rejected, \<open>_stop\<close> is rejected with that same error and the calls issued are
  \<open>job.get\<close> and \<open>build.stop\<close>: \<open>job.destroy\<close> is never issued.
\<close>

theorem stop_propagates_errors:
  fixes this :: "'w executor" and config :: config
  defines "name \<equiv> jobName (buildId config)"
  defines "get_index \<equiv> \<lparr>module = ''job'', action = ''get'', params = [JStr name]\<rparr>"
    and "get_part000 \<equiv> \<lparr>module = ''job'', action = ''get'', params = [JObj [(''name'', JStr name)]]\<rparr>"
    and "stop \<equiv> \<lambda>n. \<lparr>module = ''build'', action = ''stop'',
                        params = [JObj [(''name'', JStr name), (''number'', n)]]\<rparr>"
  shows "(breaker this get_index (remote s) = (Inl e, w1) \<longrightarrow>
            stop_index this config s = (Inl e, \<lparr>calls = calls s @ [get_index], remote = w1\<rparr>))
       \<and> (breaker this get_part000 (remote s) = (Inl e, w1) \<longrightarrow>
            stop_part000 this config s = (Inl e, \<lparr>calls = calls s @ [get_part000], remote = w1\<rparr>))
       \<and> (truthy data \<and> getProp data ''lastBuild'' = Inr lb \<and> truthy lb
            \<and> getProp lb ''number'' = Inr n \<and> truthy n
            \<and> breaker this get_index (remote s) = (Inr data, w1)
            \<and> breaker this (stop n) w1 = (Inl e, w2) \<longrightarrow>
            stop_index this config s =
              (Inl e, \<lparr>calls = calls s @ [get_index, stop n], remote = w2\<rparr>))
       \<and> (truthy data \<and> getProp data ''lastBuild'' = Inr lb \<and> truthy lb
            \<and> getProp lb ''number'' = Inr n \<and> truthy n
            \<and> breaker this get_part000 (remote s) = (Inr data, w1)
            \<and> breaker this (stop n) w1 = (Inl e, w2) \<longrightarrow>
            stop_part000 this config s =
              (Inl e, \<lparr>calls = calls s @ [get_part000, stop n], remote = w2\<rparr>))"
  unfolding name_def get_index_def get_part000_def stop_def
  by (intro conjI impI; (elim conjE)?; (frule (3) stop_guard_number)?;
      simp add: stop_index_def stop_part000_def run_simps)

theorem stop_propagates_errors_witness:
  "stop_index (test_executor [(''get'', Inl (JError ''job.get error'')), (''stop'', Inr JUndefined)])
       buildIdConfig fresh =
     (Inl (JError ''job.get error''),
      \<lparr>calls = [\<lparr>module = ''job'', action = ''get'', params = [JStr ''SD-1993'']\<rparr>], remote = 1\<rparr>)
   \<and> stop_part000 (test_executor [(''get'', Inl (JError ''job.get error'')), (''stop'', Inr JUndefined)])
       buildIdConfig fresh =
     (Inl (JError ''job.get error''),
      \<lparr>calls = [\<lparr>module = ''job'', action = ''get'', params = [JObj [(''name'', JStr ''SD-1993'')]]\<rparr>],
       remote = 1\<rparr>)
   \<and> stop_index (test_executor [(''get'', Inr fakeJobInfo), (''stop'', Inl (JError ''build.stop error''))])
       buildIdConfig fresh =
     (Inl (JError ''build.stop error''),
      \<lparr>calls = [\<lparr>module = ''job'', action = ''get'', params = [JStr ''SD-1993'']\<rparr>,
                \<lparr>module = ''build'', action = ''stop'',
                 params = [JObj [(''name'', JStr ''SD-1993''), (''number'', JNum 1)]]\<rparr>],
       remote = 2\<rparr>)
   \<and> stop_part000 (test_executor [(''get'', Inr fakeJobInfo), (''stop'', Inl (JError ''build.stop error''))])
       buildIdConfig fresh =
     (Inl (JError ''build.stop error''),
      \<lparr>calls = [\<lparr>module = ''job'', action = ''get'', params = [JObj [(''name'', JStr ''SD-1993'')]]\<rparr>,
                \<lparr>module = ''build'', action = ''stop'',
                 params = [JObj [(''name'', JStr ''SD-1993''), (''number'', JNum 1)]]\<rparr>],
       remote = 2\<rparr>)"
  using
    stop_propagates_errors [where
      this = "test_executor [(''get'', Inl (JError ''job.get error'')), (''stop'', Inr JUndefined)]"
      and config = buildIdConfig and s = fresh and e = "JError ''job.get error''" and ?w1.0 = 1]
    stop_propagates_errors [where
      this = "test_executor [(''get'', Inr fakeJobInfo), (''stop'', Inl (JError ''build.stop error''))]"
      and config = buildIdConfig and s = fresh and e = "JError ''build.stop error''" and ?w1.0 = 1
      and ?w2.0 = 2 and data = fakeJobInfo and lb = "JObj [(''number'', JNum 1)]" and n = "JNum 1"]
  by (simp add: jobName_1993 buildIdConfig_def test_executor_def stub_def fresh_def fakeJobInfo_def)

section \<open>Starting a build\<close>

text \<open>
  C7. When reading the job template fails, \<open>_start\<close> of either file is rejected with
  the error of the read, and the world is as it was: no descriptor has been handed to
  \<open>breaker.runCommand\<close>, so none of \<open>job.exists\<close>, \<open>job.create\<close>, \<open>job.config\<close> and
  \<open>job.build\<close> has been issued.
\<close>

theorem start_read_error:
  fixes this :: "'w executor"
  shows "(readFile fs (path_resolve (dirname fs) ''./config/test-job.xml'') = Inl err \<longrightarrow>
            start_index this fs config s = (Inl err, s))
       \<and> (readFile fs (path_resolve (dirname fs) ''./config/job.xml'') = Inl err \<longrightarrow>
            start_part000 this fs config s = (Inl err, s))"
  by (simp add: start_index_def start_part000_def run_simps)

theorem start_read_error_witness:
  "start_index (test_executor [(''exists'', Inr (JBool False))])
       (test_files (Inl (JError ''fs.readFile error''))) test_config fresh =
     (Inl (JError ''fs.readFile error''), \<lparr>calls = [], remote = 0\<rparr>)
   \<and> start_part000 (test_executor [(''exists'', Inr (JBool False))])
       (test_files (Inl (JError ''fs.readFile error''))) test_config fresh =
     (Inl (JError ''fs.readFile error''), \<lparr>calls = [], remote = 0\<rparr>)"
  using start_read_error [where this = "test_executor [(''exists'', Inr (JBool False))]"
      and fs = "test_files (Inl (JError ''fs.readFile error''))" and config = test_config
      and s = fresh and err = "JError ''fs.readFile error''"]
  by (simp add: test_files_def fresh_def)

text \<open>
  C2. When the template has been read, the descriptors \<open>_start\<close> of either file hands to
  \<open>breaker.runCommand\<close>, from a world with no calls yet, are: first \<open>job.exists\<close> for the
  job name, once; then, if that resolved, \<open>job.config\<close> when the answer is truthy and
  \<open>job.create\<close> when it is falsy, once and never the other; then, if that call resolved,
  \<open>job.build\<close>, once. A rejected call ends the sequence.
\<close>

theorem start_call_order:
  fixes this :: "'w executor" and config :: config
  defines "name \<equiv> jobName (buildId config)"
  defines "exists \<equiv> \<lparr>module = ''job'', action = ''exists'', params = [JObj [(''name'', JStr name)]]\<rparr>"
    and "create \<equiv> \<lambda>xml. \<lparr>module = ''job'', action = ''create'',
                            params = [JObj [(''name'', JStr name), (''xml'', JStr xml)]]\<rparr>"
    and "config' \<equiv> \<lambda>xml. \<lparr>module = ''job'', action = ''config'',
                            params = [JObj [(''name'', JStr name), (''xml'', JStr xml)]]\<rparr>"
    and "build_index \<equiv> \<lparr>module = ''job'', action = ''build'',
           params = [JObj [(''name'', JStr name),
                           (''parameters'', JObj
                              [(''SD_BUILDID'', JStr (ToString (buildId config))),
                               (''SD_TOKEN'', token config),
                               (''SD_API'', api (ecosystem this)),
                               (''SD_STORE'', store (ecosystem this))])]]\<rparr>"
    and "build_part000 \<equiv> \<lparr>module = ''job'', action = ''build'',
           params = [JObj [(''name'', JStr name),
                           (''parameters'', JObj
                              [(''SD_BUILDID'', JStr (ToString (buildId config))),
                               (''SD_TOKEN'', token config),
                               (''SD_CONTAINER'', container config),
                               (''SD_API'', api (ecosystem this)),
                               (''SD_STORE'', store (ecosystem this))])]]\<rparr>"
  shows "(readFile fs (path_resolve (dirname fs) ''./config/test-job.xml'') = Inr xml \<longrightarrow>
          calls (snd (start_index this fs config \<lparr>calls = [], remote = w\<rparr>)) =
            (case breaker this exists w of
               (Inl e, w1) \<Rightarrow> [exists]
             | (Inr ex, w1) \<Rightarrow>
                 if truthy ex then
                   (case breaker this (config' xml) w1 of
                      (Inl e, w2) \<Rightarrow> [exists, config' xml]
                    | (Inr v, w2) \<Rightarrow> [exists, config' xml, build_index])
                 else
                   (case breaker this (create xml) w1 of
                      (Inl e, w2) \<Rightarrow> [exists, create xml]
                    | (Inr v, w2) \<Rightarrow> [exists, create xml, build_index])))
       \<and> (readFile fs (path_resolve (dirname fs) ''./config/job.xml'') = Inr xml \<longrightarrow>
          calls (snd (start_part000 this fs config \<lparr>calls = [], remote = w\<rparr>)) =
            (case breaker this exists w of
               (Inl e, w1) \<Rightarrow> [exists]
             | (Inr ex, w1) \<Rightarrow>
                 if truthy ex then
                   (case breaker this (config' xml) w1 of
                      (Inl e, w2) \<Rightarrow> [exists, config' xml]
                    | (Inr v, w2) \<Rightarrow> [exists, config' xml, build_part000])
                 else
                   (case breaker this (create xml) w1 of
                      (Inl e, w2) \<Rightarrow> [exists, create xml]
                    | (Inr v, w2) \<Rightarrow> [exists, create xml, build_part000])))"
  unfolding name_def exists_def create_def config'_def build_index_def build_part000_def
  by (simp add: start_index_def start_part000_def jenkinsJobCreateOrUpdate_def run_simps
      split: prod.splits sum.splits)

theorem start_call_order_witness:
  "calls (snd (start_index (test_executor [(''exists'', Inr (JBool False))])
                 (test_files (Inr ''<project/>'')) test_config fresh)) =
     [\<lparr>module = ''job'', action = ''exists'', params = [JObj [(''name'', JStr ''SD-1993'')]]\<rparr>,
      \<lparr>module = ''job'', action = ''create'',
           params = [JObj [(''name'', JStr ''SD-1993''), (''xml'', JStr ''<project/>'')]]\<rparr>,
      \<lparr>module = ''job'', action = ''build'',
           params = [JObj [(''name'', JStr ''SD-1993''),
                           (''parameters'', JObj
                              [(''SD_BUILDID'', JStr ''1993''),
                               (''SD_TOKEN'', JStr ''abcdefg''),
                               (''SD_API'', JStr ''api''),
                               (''SD_STORE'', JStr ''store'')])]]\<rparr>]
   \<and> calls (snd (start_part000 (test_executor [(''exists'', Inr (JBool True))])
                 (test_files (Inr ''<project/>'')) test_config fresh)) =
     [\<lparr>module = ''job'', action = ''exists'', params = [JObj [(''name'', JStr ''SD-1993'')]]\<rparr>,
      \<lparr>module = ''job'', action = ''config'',
           params = [JObj [(''name'', JStr ''SD-1993''), (''xml'', JStr ''<project/>'')]]\<rparr>,
      \<lparr>module = ''job'', action = ''build'',
           params = [JObj [(''name'', JStr ''SD-1993''),
                           (''parameters'', JObj
                              [(''SD_BUILDID'', JStr ''1993''),
                               (''SD_TOKEN'', JStr ''abcdefg''),
                               (''SD_CONTAINER'', JStr ''node:4''),
                               (''SD_API'', JStr ''api''),
                               (''SD_STORE'', JStr ''store'')])]]\<rparr>]"
  using
    start_call_order [where this = "test_executor [(''exists'', Inr (JBool False))]"
      and fs = "test_files (Inr ''<project/>'')" and config = test_config and w = 0
      and xml = "''<project/>''"]
    start_call_order [where this = "test_executor [(''exists'', Inr (JBool True))]"
      and fs = "test_files (Inr ''<project/>'')" and config = test_config and w = 0
      and xml = "''<project/>''"]
  by (simp add: jobName_1993 digits_1993 test_config_def test_executor_def test_files_def
      stub_def fresh_def)

text \<open>
  C9. When \<open>job.exists\<close> and the \<open>job.config\<close> or \<open>job.create\<close> after it have
  resolved and \<open>job.build\<close> is rejected, \<open>_start\<close> of either file is rejected with the
  error of \<open>job.build\<close>, and \<open>job.build\<close> is the last call issued: nothing follows it,
  no \<open>job.destroy\<close> in particular, and the remote state is the one \<open>job.build\<close> left.
\<close>

theorem start_build_error:
  fixes this :: "'w executor" and config :: config
  defines "name \<equiv> jobName (buildId config)"
  defines "exists \<equiv> \<lparr>module = ''job'', action = ''exists'', params = [JObj [(''name'', JStr name)]]\<rparr>"
    and "create_or_config \<equiv> \<lambda>ex xml.
           if truthy ex then
             \<lparr>module = ''job'', action = ''config'',
              params = [JObj [(''name'', JStr name), (''xml'', JStr xml)]]\<rparr>
           else
             \<lparr>module = ''job'', action = ''create'',
              params = [JObj [(''name'', JStr name), (''xml'', JStr xml)]]\<rparr>"
    and "build_index \<equiv> \<lparr>module = ''job'', action = ''build'',
           params = [JObj [(''name'', JStr name),
                           (''parameters'', JObj
                              [(''SD_BUILDID'', JStr (ToString (buildId config))),
                               (''SD_TOKEN'', token config),
                               (''SD_API'', api (ecosystem this)),
                               (''SD_STORE'', store (ecosystem this))])]]\<rparr>"
    and "build_part000 \<equiv> \<lparr>module = ''job'', action = ''build'',
           params = [JObj [(''name'', JStr name),
                           (''parameters'', JObj
                              [(''SD_BUILDID'', JStr (ToString (buildId config))),
                               (''SD_TOKEN'', token config),
                               (''SD_CONTAINER'', container config),
                               (''SD_API'', api (ecosystem this)),
                               (''SD_STORE'', store (ecosystem this))])]]\<rparr>"
  assumes ex: "breaker this exists (remote s) = (Inr ex, w1)"
    and cc: "breaker this (create_or_config ex xml) w1 = (Inr v, w2)"
  shows "(readFile fs (path_resolve (dirname fs) ''./config/test-job.xml'') = Inr xml
            \<and> breaker this build_index w2 = (Inl e, w3) \<longrightarrow>
          start_index this fs config s =
            (Inl e, \<lparr>calls = calls s @ [exists, create_or_config ex xml, build_index], remote = w3\<rparr>))
       \<and> (readFile fs (path_resolve (dirname fs) ''./config/job.xml'') = Inr xml
            \<and> breaker this build_part000 w2 = (Inl e, w3) \<longrightarrow>
          start_part000 this fs config s =
            (Inl e, \<lparr>calls = calls s @ [exists, create_or_config ex xml, build_part000], remote = w3\<rparr>))"
  using ex cc
  unfolding name_def exists_def create_or_config_def build_index_def build_part000_def
  by (cases "truthy ex")
     (simp_all add: start_index_def start_part000_def jenkinsJobCreateOrUpdate_def run_simps)

theorem start_build_error_witness:
  "start_index (test_executor [(''exists'', Inr (JBool False)), (''create'', Inr (JStr ''ok'')),
                               (''build'', Inl (JError ''job.build error''))])
       (test_files (Inr ''<project/>'')) test_config fresh =
     (Inl (JError ''job.build error''),
      \<lparr>calls =
         [\<lparr>module = ''job'', action = ''exists'', params = [JObj [(''name'', JStr ''SD-1993'')]]\<rparr>,
          \<lparr>module = ''job'', action = ''create'',
           params = [JObj [(''name'', JStr ''SD-1993''), (''xml'', JStr ''<project/>'')]]\<rparr>,
          \<lparr>module = ''job'', action = ''build'',
           params = [JObj [(''name'', JStr ''SD-1993''),
                           (''parameters'', JObj
                              [(''SD_BUILDID'', JStr ''1993''),
                               (''SD_TOKEN'', JStr ''abcdefg''),
                               (''SD_API'', JStr ''api''),
                               (''SD_STORE'', JStr ''store'')])]]\<rparr>],
       remote = 3\<rparr>)
   \<and> start_part000 (test_executor [(''exists'', Inr (JBool False)), (''create'', Inr (JStr ''ok'')),
                               (''build'', Inl (JError ''job.build error''))])
       (test_files (Inr ''<project/>'')) test_config fresh =
     (Inl (JError ''job.build error''),
      \<lparr>calls =
         [\<lparr>module = ''job'', action = ''exists'', params = [JObj [(''name'', JStr ''SD-1993'')]]\<rparr>,
          \<lparr>module = ''job'', action = ''create'',
           params = [JObj [(''name'', JStr ''SD-1993''), (''xml'', JStr ''<project/>'')]]\<rparr>,
          \<lparr>module = ''job'', action = ''build'',
           params = [JObj [(''name'', JStr ''SD-1993''),
                           (''parameters'', JObj
                              [(''SD_BUILDID'', JStr ''1993''),
                               (''SD_TOKEN'', JStr ''abcdefg''),
                               (''SD_CONTAINER'', JStr ''node:4''),
                               (''SD_API'', JStr ''api''),
                               (''SD_STORE'', JStr ''store'')])]]\<rparr>],
       remote = 3\<rparr>)"
  using start_build_error [where
      this = "test_executor [(''exists'', Inr (JBool False)), (''create'', Inr (JStr ''ok'')),
                             (''build'', Inl (JError ''job.build error''))]"
      and fs = "test_files (Inr ''<project/>'')" and config = test_config and s = fresh
      and ex = "JBool False" and xml = "''<project/>''" and v = "JStr ''ok''"
      and e = "JError ''job.build error''" and ?w1.0 = 1 and ?w2.0 = 2 and ?w3.0 = 3]
  by (simp add: jobName_1993 digits_1993 test_config_def test_executor_def test_files_def
      stub_def fresh_def)

text \<open>
  C6. For build id 1993, container "node:4", token "abcdefg" and the ecosystem with api
  "api" and store "store", the job name is "SD-1993", and once the template is read and
  the job created or updated, \<open>_start\<close> is the one call of \<open>job.build\<close> for "SD-1993"
  with the parameters SD_BUILDID "1993", SD_TOKEN "abcdefg", SD_API "api" and SD_STORE
  "store" in src/index.js, and with SD_CONTAINER "node:4" added in src/unnamed/part_000.
\<close>

theorem start_1993_parameters:
  fixes this :: "'w executor"
  assumes eco: "ecosystem this = \<lparr>api = JStr ''api'', store = JStr ''store''\<rparr>"
    and job: "jenkinsJobCreateOrUpdate this ''SD-1993'' xml s = (Inr v, s1)"
  shows "jobName (JNum 1993) = ''SD-1993''
       \<and> (readFile fs (path_resolve (dirname fs) ''./config/test-job.xml'') = Inr xml \<longrightarrow>
          start_index this fs
              \<lparr>buildId = JNum 1993, container = JStr ''node:4'', token = JStr ''abcdefg''\<rparr> s =
            runCommand (breaker this)
              \<lparr>module = ''job'', action = ''build'',
               params = [JObj [(''name'', JStr ''SD-1993''),
                               (''parameters'', JObj
                                  [(''SD_BUILDID'', JStr ''1993''),
                                   (''SD_TOKEN'', JStr ''abcdefg''),
                                   (''SD_API'', JStr ''api''),
                                   (''SD_STORE'', JStr ''store'')])]]\<rparr> s1)
       \<and> (readFile fs (path_resolve (dirname fs) ''./config/job.xml'') = Inr xml \<longrightarrow>
          start_part000 this fs
              \<lparr>buildId = JNum 1993, container = JStr ''node:4'', token = JStr ''abcdefg''\<rparr> s =
            runCommand (breaker this)
              \<lparr>module = ''job'', action = ''build'',
               params = [JObj [(''name'', JStr ''SD-1993''),
                               (''parameters'', JObj
                                  [(''SD_BUILDID'', JStr ''1993''),
                                   (''SD_TOKEN'', JStr ''abcdefg''),
                                   (''SD_CONTAINER'', JStr ''node:4''),
                                   (''SD_API'', JStr ''api''),
                                   (''SD_STORE'', JStr ''store'')])]]\<rparr> s1)"
  using job
  by (simp add: start_index_def start_part000_def then_promise_def Let_def jobName_1993
      digits_1993 eco)

theorem start_1993_parameters_witness:
  "jobName (JNum 1993) = ''SD-1993''
   \<and> start_index (test_executor [(''exists'', Inr (JBool False))]) (test_files (Inr ''<project/>''))
       \<lparr>buildId = JNum 1993, container = JStr ''node:4'', token = JStr ''abcdefg''\<rparr> fresh =
     (Inr JNull,
      \<lparr>calls =
         [\<lparr>module = ''job'', action = ''exists'', params = [JObj [(''name'', JStr ''SD-1993'')]]\<rparr>,
          \<lparr>module = ''job'', action = ''create'',
           params = [JObj [(''name'', JStr ''SD-1993''), (''xml'', JStr ''<project/>'')]]\<rparr>,
          \<lparr>module = ''job'', action = ''build'',
           params = [JObj [(''name'', JStr ''SD-1993''),
                           (''parameters'', JObj
                              [(''SD_BUILDID'', JStr ''1993''),
                               (''SD_TOKEN'', JStr ''abcdefg''),
                               (''SD_API'', JStr ''api''),
                               (''SD_STORE'', JStr ''store'')])]]\<rparr>],
       remote = 3\<rparr>)
   \<and> start_part000 (test_executor [(''exists'', Inr (JBool False))]) (test_files (Inr ''<project/>''))
       \<lparr>buildId = JNum 1993, container = JStr ''node:4'', token = JStr ''abcdefg''\<rparr> fresh =
     (Inr JNull,
      \<lparr>calls =
         [\<lparr>module = ''job'', action = ''exists'', params = [JObj [(''name'', JStr ''SD-1993'')]]\<rparr>,
          \<lparr>module = ''job'', action = ''create'',
           params = [JObj [(''name'', JStr ''SD-1993''), (''xml'', JStr ''<project/>'')]]\<rparr>,
          \<lparr>module = ''job'', action = ''build'',
           params = [JObj [(''name'', JStr ''SD-1993''),
                           (''parameters'', JObj
                              [(''SD_BUILDID'', JStr ''1993''),
                               (''SD_TOKEN'', JStr ''abcdefg''),
                               (''SD_CONTAINER'', JStr ''node:4''),
                               (''SD_API'', JStr ''api''),
                               (''SD_STORE'', JStr ''store'')])]]\<rparr>],
       remote = 3\<rparr>)"
proof -
  let ?exec = "test_executor [(''exists'', Inr (JBool False))]"
  let ?s1 = "\<lparr>calls =
         [\<lparr>module = ''job'', action = ''exists'', params = [JObj [(''name'', JStr ''SD-1993'')]]\<rparr>,
          \<lparr>module = ''job'', action = ''create'',
           params = [JObj [(''name'', JStr ''SD-1993''), (''xml'', JStr ''<project/>'')]]\<rparr>],
       remote = 2 :: nat\<rparr>"
  have eco: "ecosystem ?exec = \<lparr>api = JStr ''api'', store = JStr ''store''\<rparr>"
    by (simp add: test_executor_def)
  have job: "jenkinsJobCreateOrUpdate ?exec ''SD-1993'' ''<project/>'' fresh = (Inr JNull, ?s1)"
    by (simp add: jenkinsJobCreateOrUpdate_def run_simps test_executor_def stub_def fresh_def)
  show ?thesis
    using start_1993_parameters [OF eco job, where fs = "test_files (Inr ''<project/>'')"]
    by (simp add: runCommand_def test_executor_def test_files_def stub_def)
qed

section \<open>Job names\<close>

lemma names_start_index:
  fixes this :: "'w executor"
  shows "\<forall>d \<in> set (calls (snd (start_index this fs config \<lparr>calls = [], remote = w\<rparr>))).
           job_of d = JStr (''SD-'' @ ToString (buildId config))"
  by (auto simp: start_index_def jenkinsJobCreateOrUpdate_def run_simps jobName_def
      split: prod.splits sum.splits if_splits)

lemma names_start_part000:
  fixes this :: "'w executor"
  shows "\<forall>d \<in> set (calls (snd (start_part000 this fs config \<lparr>calls = [], remote = w\<rparr>))).
           job_of d = JStr (''SD-'' @ ToString (buildId config))"
  by (auto simp: start_part000_def jenkinsJobCreateOrUpdate_def run_simps jobName_def
      split: prod.splits sum.splits if_splits)

lemma names_stop_index:
  fixes this :: "'w executor"
  shows "\<forall>d \<in> set (calls (snd (stop_index this config \<lparr>calls = [], remote = w\<rparr>))).
           job_of d = JStr (''SD-'' @ ToString (buildId config))"
  by (auto simp: stop_index_def run_simps jobName_def split: prod.splits sum.splits if_splits)

lemma names_stop_part000:
  fixes this :: "'w executor"
  shows "\<forall>d \<in> set (calls (snd (stop_part000 this config \<lparr>calls = [], remote = w\<rparr>))).
           job_of d = JStr (''SD-'' @ ToString (buildId config))"
  by (auto simp: stop_part000_def run_simps jobName_def split: prod.splits sum.splits if_splits)

text \<open>
  C5. For every build id \<open>b\<close> the job name is the prefix "SD-" followed by the string
  of \<open>b\<close>. It is a function of \<open>b\<close> alone: whatever the executor, the files, the remote
  state and the answers of the breaker, every descriptor that \<open>_start\<close> and \<open>_stop\<close> of
  either file issue is about the job of that one name.
\<close>

theorem jobName_prefix_of_buildId:
  fixes this :: "'w executor"
  shows "jobName b = ''SD-'' @ ToString b
       \<and> (\<forall>d \<in> set (calls (snd (start_index this fs config \<lparr>calls = [], remote = w\<rparr>))).
             job_of d = JStr (''SD-'' @ ToString (buildId config)))
       \<and> (\<forall>d \<in> set (calls (snd (start_part000 this fs config \<lparr>calls = [], remote = w\<rparr>))).
             job_of d = JStr (''SD-'' @ ToString (buildId config)))
       \<and> (\<forall>d \<in> set (calls (snd (stop_index this config \<lparr>calls = [], remote = w\<rparr>))).
             job_of d = JStr (''SD-'' @ ToString (buildId config)))
       \<and> (\<forall>d \<in> set (calls (snd (stop_part000 this config \<lparr>calls = [], remote = w\<rparr>))).
             job_of d = JStr (''SD-'' @ ToString (buildId config)))"
  using names_start_index [of this fs config w] names_start_part000 [of this fs config w]
    names_stop_index [of this config w] names_stop_part000 [of this config w]
  by (simp add: jobName_def)

theorem jobName_prefix_of_buildId_witness:
  "jobName (JNum 1993) = ''SD-1993''
   \<and> map job_of (calls (snd (start_index (test_executor [(''exists'', Inr (JBool True))])
                               (test_files (Inr ''<project/>'')) test_config fresh))) =
       [JStr ''SD-1993'', JStr ''SD-1993'', JStr ''SD-1993'']
   \<and> map job_of (calls (snd (start_part000 (test_executor [(''exists'', Inr (JBool True))])
                               (test_files (Inr ''<project/>'')) test_config fresh))) =
       [JStr ''SD-1993'', JStr ''SD-1993'', JStr ''SD-1993'']
   \<and> map job_of (calls (snd (stop_index (test_executor [(''get'', Inr fakeJobInfo)])
                               test_config fresh))) =
       [JStr ''SD-1993'', JStr ''SD-1993'']
   \<and> map job_of (calls (snd (stop_part000 (test_executor [(''get'', Inr fakeJobInfo)])
                               test_config fresh))) =
       [JStr ''SD-1993'', JStr ''SD-1993'', JStr ''SD-1993'']"
  using jobName_prefix_of_buildId [where b = "JNum 1993"
      and this = "test_executor [(''exists'', Inr (JBool True))]"
      and fs = "test_files (Inr ''<project/>'')" and config = test_config and w = 0]
    jobName_prefix_of_buildId [where b = "JNum 1993"
      and this = "test_executor [(''get'', Inr fakeJobInfo)]"
      and fs = "test_files (Inr ''<project/>'')" and config = test_config and w = 0]
  by (simp add: start_index_def start_part000_def stop_index_def stop_part000_def
      jenkinsJobCreateOrUpdate_def run_simps jobName_def digits_1993 test_config_def
      test_executor_def test_files_def stub_def fresh_def fakeJobInfo_def stop_guard_def
      and_js_def lastBuild_number_def)

section \<open>The two files compared\<close>

text \<open>
  C4. Apart from \<open>job.destroy\<close>, SD_CONTAINER and the template's file name the two
  files are to issue the same descriptors. At the input of the test "return error when
  job.get is getting error", where \<open>job.get\<close> is rejected and neither \<open>job.destroy\<close>
  nor \<open>job.build\<close> is reached, they do not: \<open>_stop\<close> of src/index.js has issued
  \<open>job.get\<close> with the bare job name as its parameter, and \<open>_stop\<close> of
  src/unnamed/part_000 with \<open>{name: jobName}\<close>, the form the test suite's \<open>getOpts\<close>
  and every other descriptor of either file have.
\<close>

theorem stop_index_job_get_bare_name:
  "calls (snd (stop_index (test_executor [(''get'', Inl (JError ''job.get error''))]) buildIdConfig fresh)) =
     [\<lparr>module = ''job'', action = ''get'', params = [JStr ''SD-1993'']\<rparr>]
   \<and> calls (snd (stop_part000 (test_executor [(''get'', Inl (JError ''job.get error''))]) buildIdConfig fresh)) =
     [\<lparr>module = ''job'', action = ''get'', params = [JObj [(''name'', JStr ''SD-1993'')]]\<rparr>]
   \<and> calls (snd (stop_index (test_executor [(''get'', Inl (JError ''job.get error''))]) buildIdConfig fresh))
     \<noteq> calls (snd (stop_part000 (test_executor [(''get'', Inl (JError ''job.get error''))]) buildIdConfig fresh))"
  by (simp add: stop_index_def stop_part000_def run_simps jobName_1993 buildIdConfig_def
      test_executor_def stub_def fresh_def)

text \<open>
  The call logs of the two files, side by side. Only the descriptors issued are compared
  here, not what the promises settle with (\<open>_stop\<close> of src/index.js resolves with 10
  where that of src/unnamed/part_000 settles as \<open>job.destroy\<close> does).
  \<^item> \<open>_stop\<close>: when the breaker settles \<open>job.get\<close> alike for the bare job name and for
    \<open>{name: jobName}\<close>, the calls of src/index.js are those of src/unnamed/part_000
    with \<open>job.destroy\<close> left out and the parameter of \<open>job.get\<close> replaced by the bare
    job name.
  \<^item> \<open>_start\<close>: when the two template files read alike, the calls of src/index.js are
    those of src/unnamed/part_000 with the \<open>job.build\<close> descriptor replaced by the one
    without SD_CONTAINER.
  \<^item> The template is read from test-job.xml in src/index.js and from job.xml in
    src/unnamed/part_000.
\<close>

theorem call_logs_compared:
  fixes this :: "'w executor" and config :: config
  defines "name \<equiv> jobName (buildId config)"
  defines "get_index \<equiv> \<lparr>module = ''job'', action = ''get'', params = [JStr name]\<rparr>"
    and "get_part000 \<equiv> \<lparr>module = ''job'', action = ''get'', params = [JObj [(''name'', JStr name)]]\<rparr>"
    and "destroy \<equiv> \<lparr>module = ''job'', action = ''destroy'', params = [JObj [(''name'', JStr name)]]\<rparr>"
    and "build_index \<equiv> \<lparr>module = ''job'', action = ''build'',
           params = [JObj [(''name'', JStr name),
                           (''parameters'', JObj
                              [(''SD_BUILDID'', JStr (ToString (buildId config))),
                               (''SD_TOKEN'', token config),
                               (''SD_API'', api (ecosystem this)),
                               (''SD_STORE'', store (ecosystem this))])]]\<rparr>"
    and "build_part000 \<equiv> \<lparr>module = ''job'', action = ''build'',
           params = [JObj [(''name'', JStr name),
                           (''parameters'', JObj
                              [(''SD_BUILDID'', JStr (ToString (buildId config))),
                               (''SD_TOKEN'', token config),
                               (''SD_CONTAINER'', container config),
                               (''SD_API'', api (ecosystem this)),
                               (''SD_STORE'', store (ecosystem this))])]]\<rparr>"
  shows "(breaker this get_index w = breaker this get_part000 w \<longrightarrow>
            calls (snd (stop_index this config \<lparr>calls = [], remote = w\<rparr>)) =
              map (\<lambda>d. if d = get_part000 then get_index else d)
                (filter (\<lambda>d. d \<noteq> destroy)
                   (calls (snd (stop_part000 this config \<lparr>calls = [], remote = w\<rparr>)))))
       \<and> (readFile fs (path_resolve (dirname fs) ''./config/test-job.xml'') =
            readFile fs (path_resolve (dirname fs) ''./config/job.xml'') \<longrightarrow>
            calls (snd (start_index this fs config \<lparr>calls = [], remote = w\<rparr>)) =
              map (\<lambda>d. if d = build_part000 then build_index else d)
                (calls (snd (start_part000 this fs config \<lparr>calls = [], remote = w\<rparr>))))
       \<and> path_resolve (dirname fs) ''./config/test-job.xml''
           \<noteq> path_resolve (dirname fs) ''./config/job.xml''"
proof (intro conjI impI)
  assume same: "breaker this get_index w = breaker this get_part000 w"
  show "calls (snd (stop_index this config \<lparr>calls = [], remote = w\<rparr>)) =
          map (\<lambda>d. if d = get_part000 then get_index else d)
            (filter (\<lambda>d. d \<noteq> destroy)
               (calls (snd (stop_part000 this config \<lparr>calls = [], remote = w\<rparr>))))"
    using same
    unfolding name_def get_index_def get_part000_def destroy_def
    by (auto simp: stop_index_def stop_part000_def run_simps
        split: prod.splits sum.splits if_splits)
next
  assume same: "readFile fs (path_resolve (dirname fs) ''./config/test-job.xml'') =
      readFile fs (path_resolve (dirname fs) ''./config/job.xml'')"
  show "calls (snd (start_index this fs config \<lparr>calls = [], remote = w\<rparr>)) =
          map (\<lambda>d. if d = build_part000 then build_index else d)
            (calls (snd (start_part000 this fs config \<lparr>calls = [], remote = w\<rparr>)))"
    using same
    unfolding name_def build_index_def build_part000_def
    by (auto simp: start_index_def start_part000_def jenkinsJobCreateOrUpdate_def run_simps
        split: prod.splits sum.splits if_splits)
next
  show "path_resolve (dirname fs) ''./config/test-job.xml''
      \<noteq> path_resolve (dirname fs) ''./config/job.xml''"
    by (simp add: path_resolve_def)
qed

theorem call_logs_compared_witness:
  "calls (snd (stop_part000 (test_executor [(''get'', Inr fakeJobInfo)]) test_config fresh)) =
     [\<lparr>module = ''job'', action = ''get'', params = [JObj [(''name'', JStr ''SD-1993'')]]\<rparr>,
      \<lparr>module = ''build'', action = ''stop'',
       params = [JObj [(''name'', JStr ''SD-1993''), (''number'', JNum 1)]]\<rparr>,
      \<lparr>module = ''job'', action = ''destroy'', params = [JObj [(''name'', JStr ''SD-1993'')]]\<rparr>]
   \<and> calls (snd (stop_index (test_executor [(''get'', Inr fakeJobInfo)]) test_config fresh)) =
     [\<lparr>module = ''job'', action = ''get'', params = [JStr ''SD-1993'']\<rparr>,
      \<lparr>module = ''build'', action = ''stop'',
       params = [JObj [(''name'', JStr ''SD-1993''), (''number'', JNum 1)]]\<rparr>]
   \<and> calls (snd (start_part000 (test_executor [(''get'', Inr fakeJobInfo)])
                 (test_files (Inr ''<project/>'')) test_config fresh)) =
     [\<lparr>module = ''job'', action = ''exists'', params = [JObj [(''name'', JStr ''SD-1993'')]]\<rparr>,
      \<lparr>module = ''job'', action = ''create'',
       params = [JObj [(''name'', JStr ''SD-1993''), (''xml'', JStr ''<project/>'')]]\<rparr>,
      \<lparr>module = ''job'', action = ''build'',
       params = [JObj [(''name'', JStr ''SD-1993''),
                       (''parameters'', JObj
                          [(''SD_BUILDID'', JStr ''1993''),
                           (''SD_TOKEN'', JStr ''abcdefg''),
                           (''SD_CONTAINER'', JStr ''node:4''),
                           (''SD_API'', JStr ''api''),
                           (''SD_STORE'', JStr ''store'')])]]\<rparr>]
   \<and> calls (snd (start_index (test_executor [(''get'', Inr fakeJobInfo)])
                 (test_files (Inr ''<project/>'')) test_config fresh)) =
     [\<lparr>module = ''job'', action = ''exists'', params = [JObj [(''name'', JStr ''SD-1993'')]]\<rparr>,
      \<lparr>module = ''job'', action = ''create'',
       params = [JObj [(''name'', JStr ''SD-1993''), (''xml'', JStr ''<project/>'')]]\<rparr>,
      \<lparr>module = ''job'', action = ''build'',
       params = [JObj [(''name'', JStr ''SD-1993''),
                       (''parameters'', JObj
                          [(''SD_BUILDID'', JStr ''1993''),
                           (''SD_TOKEN'', JStr ''abcdefg''),
                           (''SD_API'', JStr ''api''),
                           (''SD_STORE'', JStr ''store'')])]]\<rparr>]"
proof -
  have stop_new:
    "calls (snd (stop_part000 (test_executor [(''get'', Inr fakeJobInfo)]) test_config fresh)) =
       [\<lparr>module = ''job'', action = ''get'', params = [JObj [(''name'', JStr ''SD-1993'')]]\<rparr>,
        \<lparr>module = ''build'', action = ''stop'',
         params = [JObj [(''name'', JStr ''SD-1993''), (''number'', JNum 1)]]\<rparr>,
        \<lparr>module = ''job'', action = ''destroy'', params = [JObj [(''name'', JStr ''SD-1993'')]]\<rparr>]"
    by (simp add: stop_part000_def run_simps jobName_1993 test_config_def test_executor_def
        stub_def fresh_def fakeJobInfo_def stop_guard_def and_js_def lastBuild_number_def)
  have start_new:
    "calls (snd (start_part000 (test_executor [(''get'', Inr fakeJobInfo)])
                   (test_files (Inr ''<project/>'')) test_config fresh)) =
       [\<lparr>module = ''job'', action = ''exists'', params = [JObj [(''name'', JStr ''SD-1993'')]]\<rparr>,
        \<lparr>module = ''job'', action = ''create'',
         params = [JObj [(''name'', JStr ''SD-1993''), (''xml'', JStr ''<project/>'')]]\<rparr>,
        \<lparr>module = ''job'', action = ''build'',
         params = [JObj [(''name'', JStr ''SD-1993''),
                         (''parameters'', JObj
                            [(''SD_BUILDID'', JStr ''1993''),
                             (''SD_TOKEN'', JStr ''abcdefg''),
                             (''SD_CONTAINER'', JStr ''node:4''),
                             (''SD_API'', JStr ''api''),
                             (''SD_STORE'', JStr ''store'')])]]\<rparr>]"
    by (simp add: start_part000_def jenkinsJobCreateOrUpdate_def run_simps jobName_1993
        digits_1993 test_config_def test_executor_def test_files_def stub_def fresh_def)
  have old:
    "calls (snd (stop_index (test_executor [(''get'', Inr fakeJobInfo)]) test_config fresh)) =
       [\<lparr>module = ''job'', action = ''get'', params = [JStr ''SD-1993'']\<rparr>,
        \<lparr>module = ''build'', action = ''stop'',
         params = [JObj [(''name'', JStr ''SD-1993''), (''number'', JNum 1)]]\<rparr>]
     \<and> calls (snd (start_index (test_executor [(''get'', Inr fakeJobInfo)])
                   (test_files (Inr ''<project/>'')) test_config fresh)) =
       [\<lparr>module = ''job'', action = ''exists'', params = [JObj [(''name'', JStr ''SD-1993'')]]\<rparr>,
        \<lparr>module = ''job'', action = ''create'',
         params = [JObj [(''name'', JStr ''SD-1993''), (''xml'', JStr ''<project/>'')]]\<rparr>,
        \<lparr>module = ''job'', action = ''build'',
         params = [JObj [(''name'', JStr ''SD-1993''),
                         (''parameters'', JObj
                            [(''SD_BUILDID'', JStr ''1993''),
                             (''SD_TOKEN'', JStr ''abcdefg''),
                             (''SD_API'', JStr ''api''),
                             (''SD_STORE'', JStr ''store'')])]]\<rparr>]"
    using call_logs_compared [where this = "test_executor [(''get'', Inr fakeJobInfo)]"
        and config = test_config and w = 0 and fs = "test_files (Inr ''<project/>'')"]
      stop_new start_new
    by (simp add: fresh_def jobName_1993 digits_1993 test_config_def test_executor_def
        test_files_def stub_def)
  show ?thesis using stop_new start_new old by simp
qed

end
